theory Spec2Isabelle
  imports Main "HOL-Library.Word"
begin

unbundle bit_operations_syntax

section \<open>Data model of \<open>new_m18.py\<close>\<close>

text \<open>
  Python integers are unbounded and are modelled as \<open>int\<close>. The elements of a
  \<open>bytes\<close> or \<open>bytearray\<close> object are integers in 0..255 and are modelled as
  8-bit words; \<open>uint\<close> reads the Python integer an element stands for.
\<close>

type_synonym byte = "8 word"

datatype DataType = UINT | DATE | ASCII | SN | ADC_T | DEC_T | CELL_V | HHMMSS

record DataField =
  address :: int
  length_f :: int
  data_type :: DataType
  description :: string

text \<open>\<open>addr_h\<close>: \<open>(self.address >> 8) & 0xFF\<close>.\<close>

definition addr_h :: "DataField \<Rightarrow> int" where
  "addr_h self = (drop_bit 8 (address self)) AND 0xFF"

text \<open>\<open>addr_l\<close>: \<open>self.address & 0xFF\<close>.\<close>

definition addr_l :: "DataField \<Rightarrow> int" where
  "addr_l self = (address self) AND 0xFF"

section \<open>Checksum\<close>

text \<open>
  \<open>calculate_checksum\<close>: the loop \<open>for byte in payload: checksum += byte & 0xFFFF\<close>
  starting from \<open>checksum = 0\<close>. The mask applies to the byte, not to the running sum.
\<close>

definition calculate_checksum :: "byte list \<Rightarrow> int" where
  "calculate_checksum payload =
     fold (\<lambda>byte checksum. checksum + ((uint byte) AND 0xFFFF)) payload 0"


section \<open>Errors, console and transport\<close>

text \<open>
  The exceptions the source can raise: \<open>ValueError\<close> with its message (raised by
  \<open>read_response\<close>), \<open>struct.error\<close> (raised by \<open>struct.pack\<close> on a value
  that does not fit the format), \<open>EOFError\<close> (raised by \<open>input\<close> at the end of
  standard input) and \<open>IndexError\<close> (list indexing out of range).
\<close>

datatype error = ValueError string | StructError | EOFError | IndexError

text \<open>
  The serial connection (\<open>serial.Serial\<close>, opened with a read timeout). \<open>rx\<close> holds
  the bytes the device delivers before a read times out, in arrival order; a read of
  \<open>n\<close> bytes yields the first \<open>n\<close> of them, or fewer when the timeout fires
  first, and none for an \<open>n\<close> of 0 or less. \<open>tx\<close> records the argument of every
  \<open>write\<close> call and \<open>read_log\<close> the argument of every \<open>read\<close> call, in order.
\<close>

record serial_port =
  rx :: "byte list"
  tx :: "byte list list"
  read_log :: "int list"

definition port_read :: "int \<Rightarrow> serial_port \<Rightarrow> byte list \<times> serial_port" where
  "port_read n p =
     (take (nat n) (rx p),
      p\<lparr>rx := drop (nat n) (rx p), read_log := read_log p @ [n]\<rparr>)"

definition reset_input_buffer :: "serial_port \<Rightarrow> serial_port" where
  "reset_input_buffer p = p\<lparr>rx := []\<rparr>"

definition port_write :: "byte list \<Rightarrow> serial_port \<Rightarrow> serial_port" where
  "port_write data p = p\<lparr>tx := tx p @ [data]\<rparr>"

text \<open>
  The names of the four print flags. A flag read through \<open>self\<close> is looked up in the
  instance's own attributes first and in the class \<open>M18\<close> second; an assignment
  \<open>self.PRINT_TX = v\<close> writes the instance's own attributes.
\<close>

datatype attr = PRINT_TX | PRINT_RX | PRINT_TX_SAVE | PRINT_RX_SAVE

record M18 =
  port :: serial_port
  dict :: "attr \<rightharpoonup> bool"

text \<open>
  The state a call runs in: the attributes of the class \<open>M18\<close>, the \<open>M18\<close> instances
  by identity, the \<open>bytearray\<close> objects by identity, the chunks written to standard
  output so far, and the lines still to come on standard input (end of file after the
  last).
\<close>

record world =
  cls :: "attr \<Rightarrow> bool"
  objs :: "nat \<Rightarrow> M18"
  heap :: "nat \<Rightarrow> byte list"
  stdout :: "string list"
  stdin :: "string list"

text \<open>The class body sets all four flags to \<open>False\<close>.\<close>

definition M18_class :: "attr \<Rightarrow> bool" where
  "M18_class a = False"

definition get_flag :: "nat \<Rightarrow> attr \<Rightarrow> world \<Rightarrow> bool" where
  "get_flag self a w = (case dict (objs w self) a of Some v \<Rightarrow> v | None \<Rightarrow> cls w a)"

definition set_flag :: "nat \<Rightarrow> attr \<Rightarrow> bool \<Rightarrow> world \<Rightarrow> world" where
  "set_flag self a v w =
     w\<lparr>objs := (objs w)(self := (objs w self)\<lparr>dict := (dict (objs w self))(a \<mapsto> v)\<rparr>)\<rparr>"

definition set_port :: "nat \<Rightarrow> serial_port \<Rightarrow> world \<Rightarrow> world" where
  "set_port self p w = w\<lparr>objs := (objs w)(self := (objs w self)\<lparr>port := p\<rparr>)\<rparr>"

definition print :: "string \<Rightarrow> world \<Rightarrow> world" where
  "print s w = w\<lparr>stdout := stdout w @ [s]\<rparr>"

text \<open>\<open>input(prompt)\<close>: writes the prompt, then reads one line or raises \<open>EOFError\<close>.\<close>

definition py_input :: "string \<Rightarrow> world \<Rightarrow> (error + string) \<times> world" where
  "py_input prompt w =
     (case stdin w of
        [] \<Rightarrow> (Inl EOFError, w\<lparr>stdout := stdout w @ [prompt]\<rparr>)
      | l # ls \<Rightarrow> (Inr l, w\<lparr>stdout := stdout w @ [prompt], stdin := ls\<rparr>))"

text \<open>Python list indexing \<open>xs[i]\<close>, negative indices counting from the end.\<close>

definition py_index :: "'a list \<Rightarrow> int \<Rightarrow> error + 'a" where
  "py_index xs i =
     (if 0 \<le> i \<and> i < int (length xs) then Inr (xs ! nat i)
      else if i < 0 \<and> - int (length xs) \<le> i then Inr (xs ! nat (int (length xs) + i))
      else Inl IndexError)"

section \<open>Text formatting\<close>

text \<open>\<open>sep.join(parts)\<close>.\<close>

fun join :: "string \<Rightarrow> string list \<Rightarrow> string" where
  "join sep [] = []"
| "join sep [x] = x"
| "join sep (x # y # ys) = x @ sep @ join sep (y # ys)"

text \<open>The format \<open>{byte:02X}\<close>: two upper-case hexadecimal digits.\<close>

definition hex02X :: "byte \<Rightarrow> string" where
  "hex02X b = [''0123456789ABCDEF'' ! (unat b div 16), ''0123456789ABCDEF'' ! (unat b mod 16)]"

text \<open>The decimal text of an integer, as an f-string renders it.\<close>

fun show_nat :: "nat \<Rightarrow> string" where
  "show_nat n =
     (if n < 10 then [''0123456789'' ! n]
      else show_nat (n div 10) @ [''0123456789'' ! (n mod 10)])"

definition show_int :: "int \<Rightarrow> string" where
  "show_int i = (if i < 0 then ''-'' @ show_nat (nat (- i)) else show_nat (nat i))"

text \<open>An attribute that may be \<open>None\<close>, as an f-string renders it.\<close>

definition show_opt :: "string option \<Rightarrow> string" where
  "show_opt s = (case s of None \<Rightarrow> ''None'' | Some t \<Rightarrow> t)"

text \<open>\<open>print_debug_bytes\<close>: \<open>print("DEBUG: ", data_print)\<close> joins its two arguments with a space.\<close>

definition print_debug_bytes :: "byte list \<Rightarrow> world \<Rightarrow> world" where
  "print_debug_bytes data w =
     (let data_print = join '' '' (map hex02X data)
      in print (''DEBUG: '' @ '' '' @ data_print) w)"

section \<open>Interactive port selector\<close>

text \<open>An entry of \<open>list_ports.comports()\<close>; the manufacturer may be \<open>None\<close>.\<close>

record ListPortInfo =
  device :: string
  manufacturer :: "string option"
  port_description :: string

definition port_line :: "ListPortInfo \<Rightarrow> string" where
  "port_line p = device p @ '' - '' @ show_opt (manufacturer p) @ '' - '' @ port_description p"

text \<open>The listing loop \<open>for p in ports\<close>, which counts \<open>i\<close> up from its start value.\<close>

fun list_loop :: "ListPortInfo list \<Rightarrow> int \<Rightarrow> world \<Rightarrow> int \<times> world" where
  "list_loop [] i w = (i, w)"
| "list_loop (p # ps) i w =
     list_loop ps (i + 1) (print (''  '' @ show_int i @ '': '' @ port_line p) w)"

text \<open>
  The validation loop \<open>while (port_id < 1) or (port_id >= i)\<close>. The builtin \<open>int\<close> is
  the parameter \<open>py_int\<close>: \<open>None\<close> where it raises \<open>ValueError\<close>, which the loop
  catches. Every iteration takes one line of standard input.
\<close>

function prompt_loop :: "(string \<Rightarrow> int option) \<Rightarrow> int \<Rightarrow> int \<Rightarrow> world \<Rightarrow> (error + int) \<times> world" where
  "prompt_loop py_int i port_id w =
     (if (port_id < 1) \<or> (port_id \<ge> i) then
        (case py_input (''Choose a port (1-'' @ show_int (i - 1) @ ''): '') w of
           (Inl e, w') \<Rightarrow> (Inl e, w')
         | (Inr user_port, w') \<Rightarrow>
             (case py_int user_port of
                Some v \<Rightarrow> prompt_loop py_int i v w'
              | None \<Rightarrow>
                  prompt_loop py_int i port_id (print ''Invalid input. Please enter a number'' w')))
      else (Inr port_id, w))"
  by pat_completeness auto
termination
proof (relation "measure (\<lambda>(py_int, i, port_id, w). length (stdin w))")
  show "wf (measure (\<lambda>(py_int, i :: int, port_id :: int, w). length (stdin w)))"
    by simp
next
  fix py_int :: "string \<Rightarrow> int option" and i port_id :: int and w w' :: world
    and x user_port v
  assume "(x, w') = py_input (''Choose a port (1-'' @ show_int (i - 1) @ ''): '') w"
    and "x = Inr user_port"
  then show "((py_int, i, v, w'), (py_int, i, port_id, w))
      \<in> measure (\<lambda>(py_int, i, port_id, w). length (stdin w))"
    by (auto simp: py_input_def split: list.splits)
next
  fix py_int :: "string \<Rightarrow> int option" and i port_id :: int and w w' :: world
    and x user_port
  assume "(x, w') = py_input (''Choose a port (1-'' @ show_int (i - 1) @ ''): '') w"
    and "x = Inr user_port"
  then show "((py_int, i, port_id, print ''Invalid input. Please enter a number'' w'),
       (py_int, i, port_id, w))
      \<in> measure (\<lambda>(py_int, i, port_id, w). length (stdin w))"
    by (auto simp: py_input_def print_def split: list.splits)
qed

definition prompt_com_port_selection ::
  "(string \<Rightarrow> int option) \<Rightarrow> ListPortInfo list \<Rightarrow> world \<Rightarrow> (error + string) \<times> world" where
  "prompt_com_port_selection py_int ports w =
     (let w1 = print ''*** NO PORT SPECIFIED ***'' w;
          w2 = print ''Available serial ports (choose one that says USB somewhere):'' w1;
          (i, w3) = list_loop ports 1 w2
      in case prompt_loop py_int i 0 w3 of
           (Inl e, w4) \<Rightarrow> (Inl e, w4)
         | (Inr port_id, w4) \<Rightarrow>
             (case py_index ports (port_id - 1) of
                Inl e \<Rightarrow> (Inl e, w4)
              | Inr p \<Rightarrow>
                  (let w5 = print (''You selected '' @ [CHR 0x22] @ port_line p @ [CHR 0x22]) w4;
                       w6 = print (''In future, use '' @ [CHR 0x22] @ ''m18.py --port '' @ device p
                                   @ [CHR 0x22] @ '' to avoid this menu'') w5
                   in case py_input ''Press Enter to continue'' w6 of
                        (Inl e, w7) \<Rightarrow> (Inl e, w7)
                      | (Inr _, w7) \<Rightarrow> (Inr (device p), w7))))"

section \<open>Charger protocol client\<close>

text \<open>
  Modelled from the spec: \<open>reverse_bits\<close> is called by \<open>_send\<close> and \<open>read_response\<close>
  but the source file does not define it. The spec describes it as a full 8-bit mirror:
  bit 0 of the logical byte becomes bit 7 of the wire byte and vice versa.
\<close>

definition reverse_bits :: "byte \<Rightarrow> byte" where
  "reverse_bits b = horner_sum of_bool 2 (map (\<lambda>i. bit b (7 - i)) [0..<8])"

definition set_txrx_print :: "nat \<Rightarrow> bool \<Rightarrow> world \<Rightarrow> world" where
  "set_txrx_print self enable w =
     set_flag self PRINT_RX enable (set_flag self PRINT_TX enable w)"

definition save_and_set_txrx :: "nat \<Rightarrow> bool \<Rightarrow> world \<Rightarrow> world" where
  "save_and_set_txrx self enable w =
     (let w1 = set_flag self PRINT_TX_SAVE (get_flag self PRINT_TX w) w;
          w2 = set_flag self PRINT_RX_SAVE (get_flag self PRINT_RX w1) w1
      in set_txrx_print self enable w2)"

definition restore_txrx :: "nat \<Rightarrow> world \<Rightarrow> world" where
  "restore_txrx self w =
     (let w1 = set_flag self PRINT_TX (get_flag self PRINT_TX_SAVE w) w
      in set_flag self PRINT_RX (get_flag self PRINT_RX_SAVE w1) w1)"

text \<open>
  \<open>struct.pack(">H", v)\<close>: two bytes, high byte first, for \<open>v\<close> in 0..65535;
  \<open>struct.error\<close> for any other \<open>v\<close>.
\<close>

definition struct_pack_H :: "int \<Rightarrow> error + byte list" where
  "struct_pack_H v =
     (if 0 \<le> v \<and> v \<le> 65535 then Inr [word_of_int (v div 256), word_of_int (v mod 256)]
      else Inl StructError)"

text \<open>
  \<open>add_checksum\<close>: \<open>lsb_command\<close> is the identity of a \<open>bytearray\<close>; \<open>+=\<close> extends
  that object in place, after \<open>struct.pack\<close> has returned, and the function returns
  the identity it was given.
\<close>

definition add_checksum :: "nat \<Rightarrow> world \<Rightarrow> (error + nat) \<times> world" where
  "add_checksum lsb_command w =
     (case struct_pack_H (calculate_checksum (heap w lsb_command)) of
        Inl e \<Rightarrow> (Inl e, w)
      | Inr packed \<Rightarrow>
          (Inr lsb_command, w\<lparr>heap := (heap w)(lsb_command := heap w lsb_command @ packed)\<rparr>))"

text \<open>\<open>_send\<close>.\<close>

definition send' :: "nat \<Rightarrow> nat \<Rightarrow> world \<Rightarrow> world" where
  "send' self message w =
     (let w1 = set_port self (reset_input_buffer (port (objs w self))) w;
          debug_print = join '' '' (map hex02X (heap w1 message));
          msb = map reverse_bits (heap w1 message);
          w2 = (if get_flag self PRINT_TX w1 then print (''Sending:  '' @ debug_print) w1 else w1)
      in set_port self (port_write msb (port (objs w2 self))) w2)"

definition send_command :: "nat \<Rightarrow> nat \<Rightarrow> world \<Rightarrow> (error + unit) \<times> world" where
  "send_command self command w =
     (case add_checksum command w of
        (Inl e, w') \<Rightarrow> (Inl e, w')
      | (Inr message, w') \<Rightarrow> (Inr (), send' self message w'))"

definition read_response :: "nat \<Rightarrow> int \<Rightarrow> world \<Rightarrow> (error + byte list) \<times> world" where
  "read_response self size' w =
     (let (msb_response, p1) = port_read 1 (port (objs w self));
          w1 = set_port self p1 w
      in if msb_response = [] \<or> int (length msb_response) < 1
         then (Inl (ValueError ''Empty response''), w1)
         else
           (let (more, p2) =
                  (if reverse_bits (msb_response ! 0) = 0x82 then port_read 1 p1
                   else port_read (size' - 1) p1);
                msb_response = msb_response @ more;
                w2 = set_port self p2 w1;
                lsb_response = map reverse_bits msb_response;
                debug_print = join '' '' (map hex02X lsb_response);
                w3 = (if get_flag self PRINT_RX w2 then print (''Received: '' @ debug_print) w2
                      else w2)
            in (Inr lsb_response, w3)))"

text \<open>
  A start state for concrete runs: the class as its body leaves it, instances with no
  attribute of their own and an idle connection, empty buffers, nothing printed.
\<close>

definition init_world :: world where
  "init_world =
     \<lparr>cls = M18_class,
      objs = (\<lambda>_. \<lparr>port = \<lparr>rx = [], tx = [], read_log = []\<rparr>, dict = Map.empty\<rparr>),
      heap = (\<lambda>_. []),
      stdout = [],
      stdin = []\<rparr>"

text \<open>
  The checksum bytes as the specification words them: the sum of the command bytes
  modulo 65536, as two bytes in big-endian order. The code's \<open>add_checksum\<close> is
  compared with this.
\<close>

definition spec_checksum_bytes :: "byte list \<Rightarrow> byte list" where
  "spec_checksum_bytes command =
     (let s = sum_list (map uint command) mod 65536
      in [word_of_int (s div 256), word_of_int (s mod 256)])"

section \<open>Properties\<close>

subsection \<open>Auxiliary facts\<close>

lemma byte_mask16: "(uint (b :: byte)) AND 0xFFFF = uint b"
proof -
  have "(0xFFFF :: int) = mask 16" by (simp add: mask_eq_exp_minus_1)
  moreover have "take_bit 16 (uint b) = uint b"
  proof (rule take_bit_int_eq_self)
    show "0 \<le> uint b" by simp
    have "uint b < 2 ^ 8" using uint_bounded [of b] by simp
    then show "uint b < 2 ^ 16" by simp
  qed
  ultimately show ?thesis by (simp add: take_bit_eq_mask)
qed

lemma fold_checksum_acc:
  "fold (\<lambda>byte checksum. checksum + ((uint (byte :: byte)) AND 0xFFFF)) payload acc
     = acc + sum_list (map uint payload)"
  by (induction payload arbitrary: acc) (simp_all add: byte_mask16)

lemma calculate_checksum_sum: "calculate_checksum payload = sum_list (map uint payload)"
  by (simp add: calculate_checksum_def fold_checksum_acc)

lemma sum_uint_nonneg: "0 \<le> sum_list (map uint (payload :: byte list))"
  by (induction payload) simp_all

lemma calculate_checksum_nonneg: "0 \<le> calculate_checksum payload"
  by (simp add: calculate_checksum_sum sum_uint_nonneg)

lemma sum_replicate_ff: "sum_list (map uint (replicate n (0xFF :: byte))) = int n * 255"
proof -
  have u: "uint (0xFF :: byte) = 255" by simp
  show ?thesis
    by (induction n) (simp_all only: replicate.simps list.map sum_list.Nil sum_list.Cons u, simp_all)
qed

lemma checksum_258_ff: "calculate_checksum (replicate 258 0xFF) = 65790"
  by (simp only: calculate_checksum_sum sum_replicate_ff)

lemma get_flag_set_flag:
  "get_flag s a (set_flag s' a' v w) = (if s = s' \<and> a = a' then v else get_flag s a w)"
  by (auto simp: get_flag_def set_flag_def split: option.splits)

lemma cls_set_flag: "cls (set_flag s a v w) = cls w"
  by (simp add: set_flag_def)

lemma add_checksum_fits:
  assumes "calculate_checksum (heap w c) \<le> 65535"
  shows "add_checksum c w =
           (Inr c, w\<lparr>heap := (heap w)(c := heap w c @ spec_checksum_bytes (heap w c))\<rparr>)"
proof -
  let ?s = "calculate_checksum (heap w c)"
  have nonneg: "0 \<le> ?s" by (rule calculate_checksum_nonneg)
  then have "?s mod 65536 = ?s" using assms by simp
  then have "spec_checksum_bytes (heap w c) = [word_of_int (?s div 256), word_of_int (?s mod 256)]"
    by (simp add: spec_checksum_bytes_def calculate_checksum_sum Let_def)
  moreover have "struct_pack_H ?s = Inr [word_of_int (?s div 256), word_of_int (?s mod 256)]"
    using nonneg assms by (simp add: struct_pack_H_def)
  ultimately show ?thesis by (simp add: add_checksum_def)
qed

lemma add_checksum_overflow:
  assumes "65535 < calculate_checksum (heap w c)"
  shows "add_checksum c w = (Inl StructError, w)"
  using assms by (simp add: add_checksum_def struct_pack_H_def)

lemma heap_send': "heap (send' self m w) = heap w"
  by (simp add: send'_def set_port_def print_def Let_def)

lemma tx_send':
  "tx (port (objs (send' self m w) self)) = tx (port (objs w self)) @ [map reverse_bits (heap w m)]"
  by (simp add: send'_def set_port_def print_def Let_def port_write_def reset_input_buffer_def get_flag_def)

lemma send_command_fits:
  assumes "calculate_checksum (heap w c) \<le> 65535"
  shows "send_command self c w =
     (Inr (), send' self c (w\<lparr>heap := (heap w)(c := heap w c @ spec_checksum_bytes (heap w c))\<rparr>))"
  by (simp add: send_command_def add_checksum_fits [OF assms])


subsection \<open>Checksum and address decomposition\<close>

text \<open>
  Claim C7. For every payload, \<open>calculate_checksum\<close> returns the exact sum of the byte
  values, with no truncation: 0 for the empty payload, 1 for \<open>[0x01]\<close>, 510 for
  \<open>[0xFF, 0xFF]\<close>, and a value above 16 bits (65790) for 258 bytes of \<open>0xFF\<close>.
\<close>

theorem calculate_checksum_exact_sum:
  "calculate_checksum payload = sum_list (map uint payload)
   \<and> calculate_checksum [] = 0
   \<and> calculate_checksum [0x01] = 1
   \<and> calculate_checksum [0xFF, 0xFF] = 510
   \<and> calculate_checksum (replicate 258 0xFF) = 65790
   \<and> 2 ^ 16 \<le> calculate_checksum (replicate 258 0xFF)"
  using checksum_258_ff by (simp add: calculate_checksum_sum)

lemma and_255: "(x :: int) AND 0xFF = x mod 256"
proof -
  have "x AND mask 8 = x mod 2 ^ 8"
    by (simp only: take_bit_eq_mask [symmetric] take_bit_eq_mod)
  moreover have "mask 8 = (255 :: int)" by (simp add: mask_eq_exp_minus_1)
  ultimately show ?thesis by simp
qed

lemma addr_h_div: "addr_h f = (address f div 256) mod 256"
  by (simp add: addr_h_def and_255 drop_bit_eq_div)

lemma addr_l_mod: "addr_l f = address f mod 256"
  by (simp add: addr_l_def and_255)

text \<open>
  Claim C9. For every \<open>DataField\<close> whose address is in 0..65535,
  \<open>addr_h * 256 + addr_l\<close> is the address; address \<open>0x1234\<close> gives \<open>0x12\<close> and
  \<open>0x34\<close>, address \<open>0x00FF\<close> gives \<open>0x00\<close> and \<open>0xFF\<close>.
\<close>

theorem addr_decomposition:
  "(0 \<le> address f \<and> address f \<le> 65535 \<longrightarrow> addr_h f * 256 + addr_l f = address f)
   \<and> addr_h (f\<lparr>address := 0x1234\<rparr>) = 0x12 \<and> addr_l (f\<lparr>address := 0x1234\<rparr>) = 0x34
   \<and> addr_h (f\<lparr>address := 0x00FF\<rparr>) = 0x00 \<and> addr_l (f\<lparr>address := 0x00FF\<rparr>) = 0xFF"
proof -
  have general: "addr_h f * 256 + addr_l f = address f"
    if "0 \<le> address f \<and> address f \<le> 65535"
  proof -
    have "address f div 256 \<le> 65535 div 256"
      by (rule zdiv_mono1) (use that in simp_all)
    then have "address f div 256 < 256" by simp
    moreover have "0 \<le> address f div 256"
      using that by (simp add: pos_imp_zdiv_nonneg_iff)
    ultimately have "(address f div 256) mod 256 = address f div 256" by simp
    then show ?thesis by (simp add: addr_h_div addr_l_mod)
  qed
  have examples: "addr_h (f\<lparr>address := 0x1234\<rparr>) = 0x12 \<and> addr_l (f\<lparr>address := 0x1234\<rparr>) = 0x34
   \<and> addr_h (f\<lparr>address := 0x00FF\<rparr>) = 0x00 \<and> addr_l (f\<lparr>address := 0x00FF\<rparr>) = 0xFF"
    by (simp add: addr_h_div addr_l_mod)
  from general examples show ?thesis by blast
qed

text \<open>
  The hypothesis of C9 holds at address \<open>0xABCD\<close>.
\<close>

theorem addr_decomposition_witness:
  "0 \<le> address \<lparr>address = 0xABCD, length_f = 2, data_type = UINT, description = ''x''\<rparr>
   \<and> address \<lparr>address = 0xABCD, length_f = 2, data_type = UINT, description = ''x''\<rparr> \<le> 65535
   \<and> addr_h \<lparr>address = 0xABCD, length_f = 2, data_type = UINT, description = ''x''\<rparr> * 256
       + addr_l \<lparr>address = 0xABCD, length_f = 2, data_type = UINT, description = ''x''\<rparr> = 0xABCD"
  using addr_decomposition [of "\<lparr>address = 0xABCD, length_f = 2, data_type = UINT, description = ''x''\<rparr>"]
  by simp

text \<open>
  Claim C10. On one instance, \<open>save_and_set_txrx(enable)\<close> makes both print flags read
  \<open>enable\<close> (in particular \<open>True\<close>), and \<open>restore_txrx\<close> afterwards makes both read what
  they read before the save, whatever the starting state; from TX and RX both false the
  final state is both false again.
\<close>

theorem save_restore_round_trip:
  "get_flag self PRINT_TX (save_and_set_txrx self enable w) = enable
   \<and> get_flag self PRINT_RX (save_and_set_txrx self enable w) = enable
   \<and> get_flag self PRINT_TX (restore_txrx self (save_and_set_txrx self enable w))
       = get_flag self PRINT_TX w
   \<and> get_flag self PRINT_RX (restore_txrx self (save_and_set_txrx self enable w))
       = get_flag self PRINT_RX w
   \<and> get_flag 0 PRINT_TX init_world = False \<and> get_flag 0 PRINT_RX init_world = False
   \<and> get_flag 0 PRINT_TX (save_and_set_txrx 0 True init_world) = True
   \<and> get_flag 0 PRINT_RX (save_and_set_txrx 0 True init_world) = True
   \<and> get_flag 0 PRINT_TX (restore_txrx 0 (save_and_set_txrx 0 True init_world)) = False
   \<and> get_flag 0 PRINT_RX (restore_txrx 0 (save_and_set_txrx 0 True init_world)) = False"
proof -
  have i: "get_flag 0 a init_world = False" for a
    by (simp add: get_flag_def init_world_def M18_class_def)
  show ?thesis
    by (simp add: save_and_set_txrx_def restore_txrx_def set_txrx_print_def Let_def
        get_flag_set_flag i)
qed

text \<open>
  Claim C2, as stated, fails: after instance 0 calls \<open>set_txrx_print(True)\<close> in the start
  state, instance 0 reads \<open>True\<close> but instance 1 still reads \<open>False\<close> for both flags. The
  assignment \<open>self.PRINT_TX = enable\<close> writes the instance, not the class.
\<close>

theorem set_txrx_print_not_shared:
  "get_flag 0 PRINT_TX (set_txrx_print 0 True init_world) = True
   \<and> get_flag 1 PRINT_TX (set_txrx_print 0 True init_world) = False
   \<and> get_flag 1 PRINT_RX (set_txrx_print 0 True init_world) = False"
  by (simp add: set_txrx_print_def get_flag_set_flag)
    (simp add: get_flag_def init_world_def M18_class_def)

text \<open>
  Claim C2, amended. After an instance calls \<open>set_txrx_print(enable)\<close>, that instance
  reads \<open>enable\<close> for \<open>PRINT_TX\<close> and \<open>PRINT_RX\<close>; every flag read on any other instance,
  and the attributes of the class, are what they were before the call.
\<close>

theorem set_txrx_print_per_instance:
  "get_flag self PRINT_TX (set_txrx_print self enable w) = enable
   \<and> get_flag self PRINT_RX (set_txrx_print self enable w) = enable
   \<and> (other \<noteq> self \<longrightarrow> get_flag other a (set_txrx_print self enable w) = get_flag other a w)
   \<and> cls (set_txrx_print self enable w) = cls w"
  by (simp add: set_txrx_print_def get_flag_set_flag cls_set_flag)

text \<open>
  The amended C2 at two instances of the start state.
\<close>

theorem set_txrx_print_per_instance_witness:
  "(1::nat) \<noteq> 0
   \<and> get_flag 0 PRINT_TX (set_txrx_print 0 True init_world) = True
   \<and> get_flag 0 PRINT_RX (set_txrx_print 0 True init_world) = True
   \<and> get_flag 1 PRINT_TX (set_txrx_print 0 True init_world) = get_flag 1 PRINT_TX init_world
   \<and> get_flag 1 PRINT_TX init_world = False"
  using set_txrx_print_per_instance [of 0 True init_world 1 PRINT_TX]
  by (simp add: get_flag_def init_world_def M18_class_def)

subsection \<open>Receive path\<close>

lemma port_set_port: "port (objs (set_port self p w) self) = p"
  by (simp add: set_port_def)

lemma rx_already_empty:
  "rx p = [] \<Longrightarrow> p\<lparr>rx := [], read_log := l\<rparr> = p\<lparr>read_log := l\<rparr>"
  by (cases p) simp

lemma read_response_empty_eq:
  assumes "rx (port (objs w self)) = []"
  shows "read_response self size' w =
           (Inl (ValueError ''Empty response''),
            set_port self ((port (objs w self))\<lparr>read_log := read_log (port (objs w self)) @ [1]\<rparr>) w)"
  using assms by (simp add: read_response_def port_read_def Let_def rx_already_empty)

lemma read_response_nonempty_eq:
  assumes "rx (port (objs w self)) = b # rest"
  shows "fst (read_response self size' w) =
           Inr (map reverse_bits
                  (b # take (nat (if reverse_bits b = 0x82 then 1 else size' - 1)) rest))"
  using assms by (simp add: read_response_def port_read_def Let_def split: prod.splits)

lemma read_response_nonempty_log:
  assumes "rx (port (objs w self)) = b # rest"
  shows "read_log (port (objs (snd (read_response self size' w)) self)) =
           read_log (port (objs w self)) @ [1, if reverse_bits b = 0x82 then 1 else size' - 1]"
  using assms
  by (simp add: read_response_def port_read_def Let_def set_port_def print_def split: prod.splits)


lemma first_read_empty: "(fst (port_read 1 p) = []) = (rx p = [])"
  by (cases "rx p") (simp_all add: port_read_def)

text \<open>
  Claim C3. If the transport yields no byte to the first read, \<open>read_response\<close> raises
  \<open>ValueError("Empty response")\<close> and leaves the state with exactly that one read of
  size 1 logged and nothing else changed; if the first read yields a byte, it returns
  normally.
\<close>

theorem read_response_empty_response:
  "(fst (port_read 1 (port (objs w self))) = [] \<longrightarrow>
      read_response self size' w =
        (Inl (ValueError ''Empty response''),
         set_port self
           ((port (objs w self))\<lparr>read_log := read_log (port (objs w self)) @ [1]\<rparr>) w))
   \<and> (fst (port_read 1 (port (objs w self))) \<noteq> [] \<longrightarrow>
      (\<exists>lsb_response. fst (read_response self size' w) = Inr lsb_response))"
proof (intro conjI impI)
  assume "fst (port_read 1 (port (objs w self))) = []"
  then have "rx (port (objs w self)) = []" by (simp add: first_read_empty)
  then show "read_response self size' w =
        (Inl (ValueError ''Empty response''),
         set_port self
           ((port (objs w self))\<lparr>read_log := read_log (port (objs w self)) @ [1]\<rparr>) w)"
    by (rule read_response_empty_eq)
next
  assume "fst (port_read 1 (port (objs w self))) \<noteq> []"
  then have "rx (port (objs w self)) \<noteq> []" by (simp add: first_read_empty)
  then obtain b rest where "rx (port (objs w self)) = b # rest"
    by (cases "rx (port (objs w self))") auto
  then show "\<exists>lsb_response. fst (read_response self size' w) = Inr lsb_response"
    by (simp add: read_response_nonempty_eq)
qed

lemma rb_41: "reverse_bits 0x41 = 0x82"
  by code_simp

lemma rb_00: "reverse_bits 0x00 = 0x00"
  by code_simp

lemma port_init: "port (objs init_world self) = \<lparr>rx = [], tx = [], read_log = []\<rparr>"
  by (simp add: init_world_def)

text \<open>
  Both hypotheses of C3 at concrete connections: one that delivers nothing, one that
  delivers two bytes.
\<close>

theorem read_response_empty_response_witness:
  "fst (port_read 1 (port (objs init_world 0))) = []
   \<and> fst (read_response 0 10 init_world) = Inl (ValueError ''Empty response'')
   \<and> read_log (port (objs (snd (read_response 0 10 init_world)) 0)) = [1]
   \<and> fst (port_read 1 (port (objs (set_port 0 \<lparr>rx = [0x00, 0x00], tx = [], read_log = []\<rparr> init_world) 0))) \<noteq> []
   \<and> (\<exists>lsb_response.
        fst (read_response 0 2 (set_port 0 \<lparr>rx = [0x00, 0x00], tx = [], read_log = []\<rparr> init_world))
          = Inr lsb_response)"
proof -
  have e: "fst (port_read 1 (port (objs init_world 0))) = []"
    by (simp add: port_init port_read_def)
  have n: "fst (port_read 1 (port (objs (set_port 0 \<lparr>rx = [0x00, 0x00], tx = [], read_log = []\<rparr> init_world) 0))) \<noteq> []"
    by (simp add: port_set_port port_read_def)
  from e read_response_empty_response [of init_world 0 10]
  have "read_response 0 10 init_world =
        (Inl (ValueError ''Empty response''),
         set_port 0
           ((port (objs init_world 0))\<lparr>read_log := read_log (port (objs init_world 0)) @ [1]\<rparr>) init_world)"
    by blast
  then have "fst (read_response 0 10 init_world) = Inl (ValueError ''Empty response'')
     \<and> read_log (port (objs (snd (read_response 0 10 init_world)) 0)) = [1]"
    by (simp add: port_set_port port_init)
  moreover from n
    read_response_empty_response [of "set_port 0 \<lparr>rx = [0x00, 0x00], tx = [], read_log = []\<rparr> init_world" 0 2]
  have "\<exists>lsb_response.
        fst (read_response 0 2 (set_port 0 \<lparr>rx = [0x00, 0x00], tx = [], read_log = []\<rparr> init_world))
          = Inr lsb_response"
    by blast
  ultimately show ?thesis using e n by blast
qed

text \<open>
  Claim C1, as stated, fails. A first byte that bit-reverses to \<open>0x82\<close> followed by a
  timeout gives 1 logical byte, not 2. A size of 0 gives 1 logical byte, not 0. A size of
  4 with only two bytes delivered gives 2 logical bytes, not 4.
\<close>

theorem read_response_length_counterexample:
  "reverse_bits 0x41 = 0x82
   \<and> fst (read_response 0 10 (set_port 0 \<lparr>rx = [0x41], tx = [], read_log = []\<rparr> init_world))
       = Inr [0x82]
   \<and> reverse_bits 0x00 \<noteq> 0x82
   \<and> fst (read_response 0 0 (set_port 0 \<lparr>rx = [0x00, 0x00], tx = [], read_log = []\<rparr> init_world))
       = Inr [0x00]
   \<and> fst (read_response 0 4 (set_port 0 \<lparr>rx = [0x00, 0x00], tx = [], read_log = []\<rparr> init_world))
       = Inr [0x00, 0x00]"
  by (simp add: read_response_nonempty_eq [where rest = "[]"]
      read_response_nonempty_eq [where rest = "[0x00]"] port_set_port rb_41 rb_00)

text \<open>
  Claim C1, amended. When the transport delivers a first byte \<open>b\<close> followed by the
  further bytes \<open>rest\<close>, \<open>read_response\<close> returns normally after exactly two reads: the
  first requests 1 byte, the second requests 1 byte if \<open>b\<close> bit-reverses to \<open>0x82\<close> and
  \<open>size - 1\<close> bytes otherwise. The result is the bit-reversal of \<open>b\<close> followed by the
  bit-reversal of the first \<open>max(0, requested)\<close> bytes of \<open>rest\<close>, or of all of \<open>rest\<close>
  when fewer arrive. Its length is \<open>1 + min(1, len(rest))\<close> in the \<open>0x82\<close> case,
  whatever \<open>size\<close> is, and \<open>1 + min(max(0, size - 1), len(rest))\<close> otherwise. So it is
  exactly 2 in the \<open>0x82\<close> case when at least one further byte arrives, and exactly
  \<open>size\<close> otherwise when \<open>size\<close> is at least 1 and at least \<open>size - 1\<close> further bytes
  arrive.
\<close>

theorem read_response_length:
  assumes "rx (port (objs w self)) = b # rest"
  shows "\<exists>lsb_response.
           fst (read_response self size' w) = Inr lsb_response
         \<and> read_log (port (objs (snd (read_response self size' w)) self))
             = read_log (port (objs w self))
               @ [1, if reverse_bits b = 0x82 then 1 else size' - 1]
         \<and> lsb_response =
             map reverse_bits
               (b # take (nat (max 0 (if reverse_bits b = 0x82 then 1 else size' - 1))) rest)
         \<and> (reverse_bits b = 0x82 \<longrightarrow>
              int (length lsb_response) = 1 + min 1 (int (length rest)))
         \<and> (reverse_bits b \<noteq> 0x82 \<longrightarrow>
              int (length lsb_response) = 1 + min (max 0 (size' - 1)) (int (length rest)))
         \<and> (reverse_bits b = 0x82 \<and> 1 \<le> length rest \<longrightarrow> length lsb_response = 2)
         \<and> (reverse_bits b \<noteq> 0x82 \<and> 1 \<le> size' \<and> size' - 1 \<le> int (length rest) \<longrightarrow>
              int (length lsb_response) = size')"
proof -
  let ?n = "if reverse_bits b = 0x82 then 1 else size' - 1"
  let ?out = "map reverse_bits (b # take (nat ?n) rest)"
  have res: "fst (read_response self size' w) = Inr ?out"
    by (rule read_response_nonempty_eq [OF assms])
  have log: "read_log (port (objs (snd (read_response self size' w)) self))
             = read_log (port (objs w self)) @ [1, ?n]"
    by (rule read_response_nonempty_log [OF assms])
  have clamp: "nat (max 0 ?n) = nat ?n"
    by simp
  have clip: "int (min k (nat n)) = min (max 0 n) (int k)" for k :: nat and n :: int
    by arith
  have "length ?out = 1 + min (length rest) (nat ?n)"
    by simp
  then have "int (length ?out) = 1 + int (min (length rest) (nat ?n))"
    by (simp only: of_nat_add of_nat_1)
  then have len: "int (length ?out) = 1 + min (max 0 ?n) (int (length rest))"
    by (simp only: clip)
  have sentinel: "int (length ?out) = 1 + min 1 (int (length rest))" if "reverse_bits b = 0x82"
    using len that by simp
  have other: "int (length ?out) = 1 + min (max 0 (size' - 1)) (int (length rest))"
    if "reverse_bits b \<noteq> 0x82"
    using len that by simp
  have two: "length ?out = 2" if "reverse_bits b = 0x82 \<and> 1 \<le> length rest"
  proof -
    from that sentinel have "int (length ?out) = 1 + min 1 (int (length rest))" by blast
    moreover from that have "min 1 (int (length rest)) = 1" by simp
    ultimately have "int (length ?out) = 2" by simp
    then show ?thesis by linarith
  qed
  have exact: "int (length ?out) = size'"
    if "reverse_bits b \<noteq> 0x82 \<and> 1 \<le> size' \<and> size' - 1 \<le> int (length rest)"
  proof -
    from that other have "int (length ?out) = 1 + min (max 0 (size' - 1)) (int (length rest))"
      by blast
    moreover from that have "min (max 0 (size' - 1)) (int (length rest)) = size' - 1" by simp
    ultimately show ?thesis by simp
  qed
  show ?thesis
  proof (intro exI [of _ ?out] conjI impI)
    show "fst (read_response self size' w) = Inr ?out" by (rule res)
    show "read_log (port (objs (snd (read_response self size' w)) self))
             = read_log (port (objs w self)) @ [1, ?n]" by (rule log)
    show "?out = map reverse_bits (b # take (nat (max 0 ?n)) rest)"
      by (simp only: clamp)
    show "int (length ?out) = 1 + min 1 (int (length rest))" if "reverse_bits b = 0x82"
      by (rule sentinel [OF that])
    show "int (length ?out) = 1 + min (max 0 (size' - 1)) (int (length rest))"
      if "reverse_bits b \<noteq> 0x82"
      by (rule other [OF that])
    show "length ?out = 2" if "reverse_bits b = 0x82 \<and> 1 \<le> length rest"
      by (rule two [OF that])
    show "int (length ?out) = size'"
      if "reverse_bits b \<noteq> 0x82 \<and> 1 \<le> size' \<and> size' - 1 \<le> int (length rest)"
      by (rule exact [OF that])
  qed
qed

text \<open>
  The amended C1 on a short reply with requested size 10, on a full reply of size 3, and
  on a requested size of 0, where the result still holds the first byte.
\<close>

theorem read_response_length_witness:
  "(\<exists>lsb_response.
      fst (read_response 0 10 (set_port 0 \<lparr>rx = [0x41, 0x00], tx = [], read_log = []\<rparr> init_world))
        = Inr lsb_response \<and> length lsb_response = 2)
   \<and> read_log (port (objs (snd (read_response 0 10
        (set_port 0 \<lparr>rx = [0x41, 0x00], tx = [], read_log = []\<rparr> init_world))) 0)) = [1, 1]
   \<and> (\<exists>lsb_response.
      fst (read_response 0 3 (set_port 0 \<lparr>rx = [0x00, 0x00, 0x41, 0x41], tx = [], read_log = []\<rparr> init_world))
        = Inr lsb_response \<and> int (length lsb_response) = 3)
   \<and> read_log (port (objs (snd (read_response 0 3
        (set_port 0 \<lparr>rx = [0x00, 0x00, 0x41, 0x41], tx = [], read_log = []\<rparr> init_world))) 0)) = [1, 2]
   \<and> (\<exists>lsb_response.
      fst (read_response 0 0 (set_port 0 \<lparr>rx = [0x00, 0x00], tx = [], read_log = []\<rparr> init_world))
        = Inr lsb_response \<and> int (length lsb_response) = 1)"
proof -
  let ?s = "set_port 0 \<lparr>rx = [0x41, 0x00], tx = [], read_log = []\<rparr> init_world"
  let ?t = "set_port 0 \<lparr>rx = [0x00, 0x00, 0x41, 0x41], tx = [], read_log = []\<rparr> init_world"
  let ?z = "set_port 0 \<lparr>rx = [0x00, 0x00], tx = [], read_log = []\<rparr> init_world"
  have s: "rx (port (objs ?s 0)) = 0x41 # [0x00]"
    and ls: "read_log (port (objs ?s 0)) = []"
    by (simp_all add: port_set_port)
  have t: "rx (port (objs ?t 0)) = 0x00 # [0x00, 0x41, 0x41]"
    and lt: "read_log (port (objs ?t 0)) = []"
    by (simp_all add: port_set_port)
  have z: "rx (port (objs ?z 0)) = 0x00 # [0x00]"
    by (simp add: port_set_port)
  from read_response_length [OF s, of 10] rb_41 ls
  have a: "(\<exists>lsb_response. fst (read_response 0 10 ?s) = Inr lsb_response \<and> length lsb_response = 2)
      \<and> read_log (port (objs (snd (read_response 0 10 ?s)) 0)) = [1, 1]"
    by auto
  from read_response_length [OF t, of 3] rb_00 lt
  have b: "(\<exists>lsb_response. fst (read_response 0 3 ?t) = Inr lsb_response
             \<and> int (length lsb_response) = 3)
      \<and> read_log (port (objs (snd (read_response 0 3 ?t)) 0)) = [1, 2]"
    by auto
  from read_response_length [OF z, of 0] rb_00
  have c: "\<exists>lsb_response. fst (read_response 0 0 ?z) = Inr lsb_response
             \<and> int (length lsb_response) = 1"
    by auto
  from a b c show ?thesis by blast
qed

subsection \<open>Transmit path\<close>

lemma checksum_keepalive: "calculate_checksum [0x62] = 98"
  by (simp add: calculate_checksum_sum)

lemma spec_bytes_keepalive: "spec_checksum_bytes [0x62] = [0x00, 0x62]"
  by (simp add: spec_checksum_bytes_def)

text \<open>
  Claim C8. \<open>send_command\<close> on a command buffer holding \<open>[0x62]\<close> returns normally,
  leaves the logical frame \<open>[0x62, 0x00, 0x62]\<close> in the buffer, and writes to the
  transport, in one \<open>write\<close> call, the bit-reversal of each of those three bytes.
\<close>

theorem keepalive_frame:
  assumes "heap w command = [0x62]"
  shows "fst (send_command self command w) = Inr ()
       \<and> heap (snd (send_command self command w)) command = [0x62, 0x00, 0x62]
       \<and> tx (port (objs (snd (send_command self command w)) self))
           = tx (port (objs w self)) @ [map reverse_bits [0x62, 0x00, 0x62]]"
proof -
  have fits: "calculate_checksum (heap w command) \<le> 65535"
    by (simp add: assms checksum_keepalive)
  show ?thesis
    by (simp add: send_command_fits [OF fits] heap_send' tx_send' assms spec_bytes_keepalive)
qed

text \<open>
  C8 in the start state, with the command buffer at identity 7: the bytes on the wire
  are \<open>[0x46, 0x00, 0x46]\<close>.
\<close>

theorem keepalive_frame_witness:
  "heap (init_world\<lparr>heap := (heap init_world)(7 := [0x62])\<rparr>) 7 = [0x62]
   \<and> fst (send_command 0 7 (init_world\<lparr>heap := (heap init_world)(7 := [0x62])\<rparr>)) = Inr ()
   \<and> heap (snd (send_command 0 7 (init_world\<lparr>heap := (heap init_world)(7 := [0x62])\<rparr>))) 7
       = [0x62, 0x00, 0x62]
   \<and> tx (port (objs (snd (send_command 0 7 (init_world\<lparr>heap := (heap init_world)(7 := [0x62])\<rparr>))) 0))
       = [[0x46, 0x00, 0x46]]"
proof -
  have h: "heap (init_world\<lparr>heap := (heap init_world)(7 := [0x62])\<rparr>) 7 = [0x62]"
    by simp
  have r: "map reverse_bits [0x62, 0x00, 0x62] = [0x46, 0x00, 0x46]"
    by code_simp
  have t: "tx (port (objs (init_world\<lparr>heap := (heap init_world)(7 := [0x62])\<rparr>) 0)) = []"
    by (simp add: init_world_def)
  from keepalive_frame [OF h, of 0] show ?thesis
    by (simp only: h r t append_Nil simp_thms)
qed

text \<open>
  Claim C4 at a command of 258 bytes \<open>0xFF\<close>, whose sum 65790 exceeds 65535:
  packing 65790 into an unsigned 16-bit field raises, so \<open>add_checksum\<close> raises
  \<open>struct.error\<close> and leaves the command as it was, where the claim expects the bytes
  \<open>[0x00, 0xFE]\<close> of 65790 mod 65536 to be appended.
\<close>

theorem add_checksum_overflow_raises:
  "calculate_checksum (replicate 258 0xFF) = 65790
   \<and> add_checksum 0 (init_world\<lparr>heap := (heap init_world)(0 := replicate 258 0xFF)\<rparr>)
       = (Inl StructError, init_world\<lparr>heap := (heap init_world)(0 := replicate 258 0xFF)\<rparr>)
   \<and> spec_checksum_bytes (replicate 258 0xFF) = [0x00, 0xFE]"
proof -
  have over: "65535 < calculate_checksum
      (heap (init_world\<lparr>heap := (heap init_world)(0 := replicate 258 0xFF)\<rparr>) 0)"
    by (simp add: checksum_258_ff)
  have spec: "spec_checksum_bytes (replicate 258 0xFF) = [0x00, 0xFE]"
    by (simp only: spec_checksum_bytes_def sum_replicate_ff) (simp add: Let_def)
  from add_checksum_overflow [OF over] checksum_258_ff spec show ?thesis
    by blast
qed



lemma add_checksum_returns_iff:
  "(fst (add_checksum c w) = Inr c) = (calculate_checksum (heap w c) \<le> 65535)"
proof (cases "calculate_checksum (heap w c) \<le> 65535")
  case True
  then show ?thesis by (simp add: add_checksum_fits)
next
  case False
  then have "65535 < calculate_checksum (heap w c)" by simp
  then have "add_checksum c w = (Inl StructError, w)" by (rule add_checksum_overflow)
  with False show ?thesis by simp
qed










subsection \<open>Port selection without ports\<close>

lemma prompt_loop_no_ports:
  "fst (prompt_loop py_int 1 port_id w) = Inl EOFError
   \<and> stdin (snd (prompt_loop py_int 1 port_id w)) = []"
proof (induction "stdin w" arbitrary: w port_id)
  case Nil
  then have "stdin w = []" by simp
  then show ?case
    by (subst (1 2) prompt_loop.simps) (auto simp: py_input_def)
next
  case (Cons l ls)
  then have inp: "stdin w = l # ls" by simp
  let ?prompt = "''Choose a port (1-'' @ show_int (1 - 1) @ ''): ''"
  let ?w' = "w\<lparr>stdout := stdout w @ [?prompt], stdin := ls\<rparr>"
  have step: "py_input ?prompt w = (Inr l, ?w')"
    by (simp add: py_input_def inp)
  have rest: "ls = stdin ?w'" by simp
  have rest2: "ls = stdin (print ''Invalid input. Please enter a number'' ?w')"
    by (simp add: print_def)
  have always: "port_id < 1 \<or> port_id \<ge> 1" by arith
  show ?case
  proof (cases "py_int l")
    case None
    have "prompt_loop py_int 1 port_id w =
        prompt_loop py_int 1 port_id (print ''Invalid input. Please enter a number'' ?w')"
      by (subst prompt_loop.simps) (simp only: always if_True step None prod.case sum.case option.case)
    with Cons.hyps(1) [OF rest2] show ?thesis by simp
  next
    case (Some v)
    have "prompt_loop py_int 1 port_id w = prompt_loop py_int 1 v ?w'"
      by (subst prompt_loop.simps) (simp only: always if_True step Some prod.case sum.case option.case)
    with Cons.hyps(1) [OF rest] show ?thesis by simp
  qed
qed

text \<open>
  Claim C6. With no serial port enumerated the listing loop leaves \<open>i = 1\<close>, so the loop
  condition \<open>port_id < 1 or port_id >= i\<close> holds for every integer. Whatever lines
  standard input holds and whatever \<open>int\<close> makes of them, the validation loop
  consumes them all and \<open>prompt_com_port_selection\<close> ends in the \<open>EOFError\<close> of
  \<open>input\<close>; it never returns a device.
\<close>

theorem prompt_no_ports_never_returns:
  "fst (list_loop [] 1 w) = 1
   \<and> (\<forall>port_id :: int. port_id < 1 \<or> port_id \<ge> fst (list_loop [] 1 w))
   \<and> fst (prompt_com_port_selection py_int [] w) = Inl EOFError
   \<and> stdin (snd (prompt_com_port_selection py_int [] w)) = []"
proof -
  let ?w2 = "print ''Available serial ports (choose one that says USB somewhere):''
               (print ''*** NO PORT SPECIFIED ***'' w)"
  have sel: "prompt_com_port_selection py_int [] w =
      (case prompt_loop py_int 1 0 ?w2 of
         (Inl e, w4) \<Rightarrow> (Inl e, w4)
       | (Inr port_id, w4) \<Rightarrow>
           (case py_index [] (port_id - 1) of
              Inl e \<Rightarrow> (Inl e, w4)
            | Inr p \<Rightarrow>
                (let w5 = print (''You selected '' @ [CHR 0x22] @ port_line p @ [CHR 0x22]) w4;
                     w6 = print (''In future, use '' @ [CHR 0x22] @ ''m18.py --port '' @ device p
                                 @ [CHR 0x22] @ '' to avoid this menu'') w5
                 in case py_input ''Press Enter to continue'' w6 of
                      (Inl e, w7) \<Rightarrow> (Inl e, w7)
                    | (Inr _, w7) \<Rightarrow> (Inr (device p), w7))))"
    by (simp only: prompt_com_port_selection_def Let_def list_loop.simps prod.case)
  obtain r w4 where run: "prompt_loop py_int 1 0 ?w2 = (r, w4)"
    by (cases "prompt_loop py_int 1 0 ?w2")
  from prompt_loop_no_ports [of py_int 0 ?w2] run
  have "r = Inl EOFError" and "stdin w4 = []" by simp_all
  with sel run have "prompt_com_port_selection py_int [] w = (Inl EOFError, w4)"
    by (simp only: prod.case sum.case)
  with \<open>stdin w4 = []\<close> show ?thesis by auto
qed

end
